theory Spec2Isabelle
  imports Complex_Main "HOL-Library.Word"
begin

unbundle bit_operations_syntax

section \<open>JavaScript values used by task4/main.js\<close>

text \<open>
  A JavaScript string is a sequence of UTF-16 code units; \<open>.length\<close> counts code units.
  \<open>js\<close> turns an Isabelle literal into such a string.
\<close>

type_synonym jschar = "16 word"
type_synonym jsstring = "jschar list"

definition js :: "string \<Rightarrow> jsstring" where
  "js s = map of_char s"

text \<open>
  The results of \<open>parseInt\<close> that the program computes with: \<open>NaN\<close> or an integer.
\<close>

datatype jsnum = NaN | Num int

text \<open>\<open>n > m\<close> for an integer \<open>n\<close> and a number \<open>m\<close>: false when \<open>m\<close> is NaN.\<close>

fun int_gt :: "int \<Rightarrow> jsnum \<Rightarrow> bool" where
  "int_gt n NaN = False"
| "int_gt n (Num m) = (n > m)"

text \<open>\<open>m > 0\<close> for a number \<open>m\<close>.\<close>

fun num_pos :: "jsnum \<Rightarrow> bool" where
  "num_pos NaN = False"
| "num_pos (Num m) = (m > 0)"

text \<open>
  The class \<open>\s\<close> of a regular expression, which is also what \<open>String.prototype.trim\<close>
  strips: WhiteSpace and LineTerminator code units.
\<close>

definition is_ws :: "jschar \<Rightarrow> bool" where
  "is_ws c \<longleftrightarrow>
     c = 0x09 \<or> c = 0x0A \<or> c = 0x0B \<or> c = 0x0C \<or> c = 0x0D \<or> c = 0x20 \<or> c = 0xA0 \<or>
     c = 0x1680 \<or> (0x2000 \<le> c \<and> c \<le> 0x200A) \<or> c = 0x2028 \<or> c = 0x2029 \<or>
     c = 0x202F \<or> c = 0x205F \<or> c = 0x3000 \<or> c = 0xFEFF"

definition space :: jschar where
  "space = 0x20"

text \<open>\<open>s.trim()\<close>: the whitespace at the end and at the start is stripped.\<close>

definition trim :: "jsstring \<Rightarrow> jsstring" where
  "trim s = dropWhile is_ws (rev (dropWhile is_ws (rev s)))"

text \<open>\<open>s.slice(-n)\<close> for \<open>n > 0\<close>: from index \<open>max (length - n) 0\<close> to the end.\<close>

definition slice_last :: "int \<Rightarrow> jsstring \<Rightarrow> jsstring" where
  "slice_last n s = drop (nat (int (length s) - n)) s"

section \<open>Chunking\<close>

text \<open>\<open>text.replace(/\s+/g, " ")\<close>: every maximal run of whitespace becomes one space.\<close>

function collapse_ws :: "jsstring \<Rightarrow> jsstring" where
  "collapse_ws [] = []"
| "collapse_ws (c # cs) =
     (if is_ws c then space # collapse_ws (dropWhile is_ws cs) else c # collapse_ws cs)"
  by pat_completeness auto
termination
  by (relation "measure length") (auto simp: length_dropWhile_le less_Suc_eq_le)

text \<open>The class \<open>[.!?]\<close> of the lookbehind.\<close>

definition is_terminator :: "jschar \<Rightarrow> bool" where
  "is_terminator c \<longleftrightarrow> c = 0x2E \<or> c = 0x21 \<or> c = 0x3F"

text \<open>
  \<open>s.split(/(?<=[.!?])\s+/)\<close>. \<open>prev\<close> is the code unit before the current position
  (\<open>None\<close> at the start of the string), \<open>cur\<close> the piece collected since the last match.
  A match is a maximal whitespace run right after a terminator; it is dropped and closes the
  piece. The piece left at the end of the string is always emitted, also when it is empty.
\<close>

function split_from :: "jschar option \<Rightarrow> jsstring \<Rightarrow> jsstring \<Rightarrow> jsstring list" where
  "split_from prev cur [] = [cur]"
| "split_from prev cur (c # cs) =
     (if is_ws c \<and> (case prev of None \<Rightarrow> False | Some p \<Rightarrow> is_terminator p)
      then cur # split_from (Some (last (c # takeWhile is_ws cs))) [] (dropWhile is_ws cs)
      else split_from (Some c) (cur @ [c]) cs)"
  by pat_completeness auto
termination
  by (relation "measure (\<lambda>(prev, cur, s). length s)")
     (auto simp: length_dropWhile_le less_Suc_eq_le)

definition split_sentences :: "jsstring \<Rightarrow> jsstring list" where
  "split_sentences s = split_from None [] s"

text \<open>The sentences \<open>chunkText\<close> iterates over.\<close>

definition sentences_of :: "jsstring \<Rightarrow> jsstring list" where
  "sentences_of text = split_sentences (collapse_ws text)"

text \<open>
  One iteration of the \<open>for (const sentence of sentences)\<close> loop of \<open>chunkText\<close>, on the
  pair \<open>(chunks, currentChunk)\<close>.
\<close>

definition chunk_step ::
  "jsnum \<Rightarrow> jsnum \<Rightarrow> jsstring list \<times> jsstring \<Rightarrow> jsstring \<Rightarrow> jsstring list \<times> jsstring" where
  "chunk_step sz overlap st sentence =
     (case st of (chunks, currentChunk) \<Rightarrow>
        if int_gt (int (length (currentChunk @ sentence))) sz then
          (let chunks' = (if trim currentChunk = [] then chunks
                          else chunks @ [trim currentChunk]);
               seed = (if num_pos overlap \<and> length chunks' > 0
                       then (case overlap of Num n \<Rightarrow> trim (slice_last n currentChunk)
                                           | NaN \<Rightarrow> [])
                       else [])
           in (chunks', seed @ sentence @ [space]))
        else (chunks, currentChunk @ sentence @ [space]))"

definition chunk_loop :: "jsnum \<Rightarrow> jsnum \<Rightarrow> jsstring list \<Rightarrow> jsstring list \<times> jsstring" where
  "chunk_loop sz overlap sentences = foldl (chunk_step sz overlap) ([], []) sentences"

definition chunkText :: "jsstring \<Rightarrow> jsnum \<Rightarrow> jsnum \<Rightarrow> jsstring list" where
  "chunkText text sz overlap =
     (case chunk_loop sz overlap (sentences_of text) of
        (chunks, currentChunk) \<Rightarrow>
          if trim currentChunk = [] then chunks else chunks @ [trim currentChunk])"

text \<open>
  The bound a chunk can be shown to meet: at most \<open>S\<close> code units, or a seed of at most
  \<open>max 0 ov\<close> code units followed by one whole sentence of \<open>ss\<close>, trimmed.
\<close>

definition soft_bounded :: "int \<Rightarrow> int \<Rightarrow> jsstring list \<Rightarrow> jsstring \<Rightarrow> bool" where
  "soft_bounded S ov ss c \<longleftrightarrow>
     int (length c) \<le> S \<or>
     (\<exists>s \<in> set ss. \<exists>seed. int (length seed) \<le> max 0 ov \<and> c = trim (seed @ s) \<and>
        S < int (length (seed @ s)))"

section \<open>Documents, chunks and embedding\<close>

text \<open>
  A document as \<open>loadAllDocumentsWithCategory\<close> builds it, a chunk as
  \<open>chunkAllDocuments\<close> builds it (the document's name and category, the chunk's text and
  its index) and an embedded chunk (\<open>{...chunk, embedding}\<close>).
\<close>

record document =
  filename :: jsstring
  category :: jsstring
  content :: jsstring

record chunk = document +
  chunkIndex :: nat

record embedded_chunk = chunk +
  embedding :: "real list option"

text \<open>The body of \<open>documents.forEach\<close> in \<open>chunkAllDocuments\<close>: the chunks of one document.\<close>

definition chunks_of_document :: "jsnum \<Rightarrow> jsnum \<Rightarrow> document \<Rightarrow> chunk list" where
  "chunks_of_document sz overlap doc =
     map (\<lambda>(index, c). \<lparr>filename = filename doc, category = category doc, content = c,
                          chunkIndex = index\<rparr>)
         (enumerate 0 (chunkText (content doc) sz overlap))"

definition chunkAllDocuments :: "document list \<Rightarrow> jsnum \<Rightarrow> jsnum \<Rightarrow> chunk list" where
  "chunkAllDocuments documents sz overlap = concat (map (chunks_of_document sz overlap) documents)"

text \<open>
  What a call of the embedding pipeline gives \<open>embedChunk\<close>: it throws, it returns a
  result without \<open>ort_tensor\<close>, or it returns a tensor with its \<open>cpuData\<close>. The provider is
  a black box: its outcome may depend on the position of the call in the run and on the text.
\<close>

datatype provider_result = ProviderThrows | NoTensor | Tensor "real list"

type_synonym embedder = "nat \<Rightarrow> jsstring \<Rightarrow> provider_result"

text \<open>\<open>embedChunk\<close>: the vector, or \<open>None\<close> for the \<open>null\<close> its \<open>catch\<close> returns.\<close>

definition embedChunk :: "embedder \<Rightarrow> nat \<Rightarrow> jsstring \<Rightarrow> real list option" where
  "embedChunk e k text =
     (case e k text of
        ProviderThrows \<Rightarrow> None
      | NoTensor \<Rightarrow> None
      | Tensor cpuData \<Rightarrow> Some cpuData)"

definition EMBED_BATCH_SIZE :: nat where
  "EMBED_BATCH_SIZE = 16"

definition with_embedding :: "chunk \<Rightarrow> real list \<Rightarrow> embedded_chunk" where
  "with_embedding c vector =
     \<lparr>filename = filename c, category = category c, content = content c,
      chunkIndex = chunkIndex c, embedding = Some vector\<rparr>"

text \<open>
  One batch starting at index \<open>i\<close>: the vectors of \<open>Promise.all(batch.map(...))\<close>, then
  \<open>vectors.forEach\<close>, which skips a \<open>null\<close> vector and pushes every other chunk (an empty
  array is not falsy) with its vector.
\<close>

definition embed_batch :: "embedder \<Rightarrow> nat \<Rightarrow> chunk list \<Rightarrow> embedded_chunk list" where
  "embed_batch e i batch =
     (let vectors = map (\<lambda>(idx, c). embedChunk e (i + idx) (content c)) (enumerate 0 batch)
      in concat (map (\<lambda>(vector, c). case vector of None \<Rightarrow> [] | Some v \<Rightarrow> [with_embedding c v])
                     (zip vectors batch)))"

text \<open>The loop \<open>for (let i = 0; i < chunks.length; i += EMBED_BATCH_SIZE)\<close>.\<close>

function embed_loop ::
  "embedder \<Rightarrow> chunk list \<Rightarrow> nat \<Rightarrow> embedded_chunk list \<Rightarrow> embedded_chunk list" where
  "embed_loop e chunks i embedded =
     (if i < length chunks
      then embed_loop e chunks (i + EMBED_BATCH_SIZE)
             (embedded @ embed_batch e i (take EMBED_BATCH_SIZE (drop i chunks)))
      else embedded)"
  by pat_completeness auto
termination
  by (relation "measure (\<lambda>(e, chunks, i, embedded). length chunks - i)")
     (auto simp: EMBED_BATCH_SIZE_def)

declare embed_loop.simps [simp del]

definition embedAllChunks :: "embedder \<Rightarrow> chunk list \<Rightarrow> embedded_chunk list" where
  "embedAllChunks e chunks = embed_loop e chunks 0 []"




section \<open>Chunk identity\<close>

text \<open>
  \<open>String(n)\<close> for a non-negative integer \<open>n\<close> (an array index): its decimal digits.
\<close>

definition digit_char :: "nat \<Rightarrow> jschar" where
  "digit_char d = 0x30 + of_nat d"

fun decimal :: "nat \<Rightarrow> jsstring" where
  "decimal n = (if n < 10 then [digit_char n] else decimal (n div 10) @ [digit_char (n mod 10)])"

declare decimal.simps [simp del]

text \<open>The template literal \<open>`${chunk.filename}|${chunk.category}|${chunk.chunkIndex}`\<close>.\<close>

definition chunk_id_raw :: "'a chunk_scheme \<Rightarrow> jsstring" where
  "chunk_id_raw chunk = filename chunk @ [0x7C] @ category chunk @ [0x7C] @ decimal (chunkIndex chunk)"

text \<open>
  \<open>hash.update(raw)\<close> hashes the UTF-8 encoding of the string: a surrogate pair is one code
  point, a lone surrogate is encoded as U+FFFD.
\<close>

type_synonym byte = "8 word"

definition utf8_code_point :: "nat \<Rightarrow> byte list" where
  "utf8_code_point n =
     (if n < 0x80 then [of_nat n]
      else if n < 0x800 then [of_nat (0xC0 + n div 64), of_nat (0x80 + n mod 64)]
      else if n < 0x10000 then
        [of_nat (0xE0 + n div 4096), of_nat (0x80 + n div 64 mod 64), of_nat (0x80 + n mod 64)]
      else
        [of_nat (0xF0 + n div 262144), of_nat (0x80 + n div 4096 mod 64),
         of_nat (0x80 + n div 64 mod 64), of_nat (0x80 + n mod 64)])"

definition is_high_surrogate :: "jschar \<Rightarrow> bool" where
  "is_high_surrogate c \<longleftrightarrow> 0xD800 \<le> c \<and> c \<le> 0xDBFF"

definition is_low_surrogate :: "jschar \<Rightarrow> bool" where
  "is_low_surrogate c \<longleftrightarrow> 0xDC00 \<le> c \<and> c \<le> 0xDFFF"

fun utf8_encode :: "jsstring \<Rightarrow> byte list" where
  "utf8_encode [] = []"
| "utf8_encode [c] =
     (if is_high_surrogate c \<or> is_low_surrogate c then utf8_code_point 0xFFFD
      else utf8_code_point (unat c))"
| "utf8_encode (c # d # rest) =
     (if is_high_surrogate c \<and> is_low_surrogate d
      then utf8_code_point (0x10000 + (unat c - 0xD800) * 0x400 + (unat d - 0xDC00))
           @ utf8_encode rest
      else if is_high_surrogate c \<or> is_low_surrogate c
      then utf8_code_point 0xFFFD @ utf8_encode (d # rest)
      else utf8_code_point (unat c) @ utf8_encode (d # rest))"

text \<open>
  \<open>crypto.createHash("sha1")\<close>: SHA-1 as FIPS 180-4 defines it, on 32-bit words.
\<close>

type_synonym u32 = "32 word"

definition rotl :: "nat \<Rightarrow> u32 \<Rightarrow> u32" where
  "rotl n x = push_bit n x OR drop_bit (32 - n) x"

text \<open>Padding: the byte 0x80, zero bytes up to 56 modulo 64, the bit length on 64 bits.\<close>

definition be64 :: "nat \<Rightarrow> byte list" where
  "be64 n = map (\<lambda>i. ucast (drop_bit (8 * (7 - i)) (of_nat n :: 64 word))) [0..<8]"

definition sha1_pad :: "byte list \<Rightarrow> byte list" where
  "sha1_pad m =
     m @ [0x80] @ replicate ((119 - length m mod 64) mod 64) 0 @ be64 (8 * length m)"

fun be_words :: "byte list \<Rightarrow> u32 list" where
  "be_words (a # b # c # d # rest) =
     (push_bit 24 (ucast a) OR push_bit 16 (ucast b) OR push_bit 8 (ucast c) OR ucast d)
     # be_words rest"
| "be_words _ = []"

text \<open>The message schedule: 16 words of the block, extended to 80.\<close>

definition schedule_next :: "u32 list \<Rightarrow> u32 list" where
  "schedule_next w =
     (let t = length w
      in w @ [rotl 1 (w ! (t - 3) XOR w ! (t - 8) XOR w ! (t - 14) XOR w ! (t - 16))])"

definition schedule :: "u32 list \<Rightarrow> u32 list" where
  "schedule block = (schedule_next ^^ 64) block"

type_synonym sha1_state = "u32 \<times> u32 \<times> u32 \<times> u32 \<times> u32"

definition sha1_f :: "nat \<Rightarrow> u32 \<Rightarrow> u32 \<Rightarrow> u32 \<Rightarrow> u32" where
  "sha1_f t b c d =
     (if t < 20 then (b AND c) OR (NOT b AND d)
      else if t < 40 then b XOR c XOR d
      else if t < 60 then (b AND c) OR (b AND d) OR (c AND d)
      else b XOR c XOR d)"

definition sha1_k :: "nat \<Rightarrow> u32" where
  "sha1_k t =
     (if t < 20 then 0x5A827999 else if t < 40 then 0x6ED9EBA1
      else if t < 60 then 0x8F1BBCDC else 0xCA62C1D6)"

definition sha1_round :: "sha1_state \<Rightarrow> nat \<times> u32 \<Rightarrow> sha1_state" where
  "sha1_round st tw =
     (case st of (a, b, c, d, e) \<Rightarrow> case tw of (t, w) \<Rightarrow>
        (rotl 5 a + sha1_f t b c d + e + sha1_k t + w, a, rotl 30 b, c, d))"

definition sha1_compress :: "sha1_state \<Rightarrow> u32 list \<Rightarrow> sha1_state" where
  "sha1_compress h block =
     (case h of (h0, h1, h2, h3, h4) \<Rightarrow>
        case foldl sha1_round h (enumerate 0 (schedule block)) of (a, b, c, d, e) \<Rightarrow>
          (h0 + a, h1 + b, h2 + c, h3 + d, h4 + e))"

function sha1_blocks :: "sha1_state \<Rightarrow> u32 list \<Rightarrow> sha1_state" where
  "sha1_blocks h ws =
     (if ws = [] then h else sha1_blocks (sha1_compress h (take 16 ws)) (drop 16 ws))"
  by pat_completeness auto
termination
  by (relation "measure (\<lambda>(h, ws). length ws)") auto

declare sha1_blocks.simps [simp del]

definition sha1_init :: sha1_state where
  "sha1_init = (0x67452301, 0xEFCDAB89, 0x98BADCFE, 0x10325476, 0xC3D2E1F0)"

definition sha1 :: "byte list \<Rightarrow> u32 list" where
  "sha1 m =
     (case sha1_blocks sha1_init (be_words (sha1_pad m)) of (h0, h1, h2, h3, h4) \<Rightarrow>
        [h0, h1, h2, h3, h4])"

text \<open>\<open>digest("hex")\<close>: eight lower-case hexadecimal digits for each word.\<close>

definition hex_digit :: "nat \<Rightarrow> jschar" where
  "hex_digit n = (if n < 10 then 0x30 + of_nat n else 0x61 + of_nat (n - 10))"

definition hex_word :: "u32 \<Rightarrow> jsstring" where
  "hex_word w = map (\<lambda>i. hex_digit (unat (drop_bit (4 * (7 - i)) w AND 0xF))) [0..<8]"

definition hex_digest :: "u32 list \<Rightarrow> jsstring" where
  "hex_digest ws = concat (map hex_word ws)"

definition makeChunkId :: "'a chunk_scheme \<Rightarrow> jsstring" where
  "makeChunkId chunk = hex_digest (sha1 (utf8_encode (chunk_id_raw chunk)))"



section \<open>Saving to the vector index\<close>

text \<open>The metadata object stored with each chunk.\<close>

record metadata =
  md_filename :: jsstring
  md_category :: jsstring
  md_chunkIndex :: nat
  md_model :: jsstring

text \<open>The four parallel arrays passed to \<open>collection.add\<close>.\<close>

record add_request =
  ids :: "jsstring list"
  embeddings :: "real list list"
  documents :: "jsstring list"
  metadatas :: "metadata list"

definition empty_request :: add_request where
  "empty_request = \<lparr>ids = [], embeddings = [], documents = [], metadatas = []\<rparr>"

text \<open>
  One iteration of \<open>for (const chunk of embeddedChunks)\<close>: a chunk with a missing or empty
  embedding is skipped, any other chunk is pushed onto the four arrays.
\<close>

definition save_step :: "add_request \<Rightarrow> embedded_chunk \<Rightarrow> add_request" where
  "save_step r chunk =
     (case embedding chunk of
        None \<Rightarrow> r
      | Some v \<Rightarrow>
          if length v = 0 then r
          else \<lparr>ids = ids r @ [makeChunkId chunk],
                embeddings = embeddings r @ [v],
                documents = documents r @ [content chunk],
                metadatas = metadatas r @
                  [\<lparr>md_filename = filename chunk, md_category = category chunk,
                    md_chunkIndex = chunkIndex chunk, md_model = js ''all-MiniLM-L6-v2''\<rparr>]\<rparr>)"

datatype error = Error jsstring

text \<open>
  What \<open>saveToChroma\<close> decides before it touches the index: return at once on an empty
  input (after a warning), throw, or issue the one \<open>collection.add\<close>.
\<close>

datatype save_plan = Skip | Throw error | Add add_request

definition plan_save :: "embedded_chunk list \<Rightarrow> save_plan" where
  "plan_save embeddedChunks =
     (if length embeddedChunks = 0 then Skip
      else
        (let r = foldl save_step empty_request embeddedChunks
         in if length (ids r) = 0 \<or>
               length (ids r) \<noteq> length (embeddings r) \<or>
               length (ids r) \<noteq> length (metadatas r) \<or>
               length (ids r) \<noteq> length (documents r)
            then Throw (Error (js ''Chroma data arrays mismatch or empty''))
            else Add r))"

text \<open>A record of the vector index.\<close>

record stored_record =
  rec_embedding :: "real list"
  rec_document :: jsstring
  rec_metadata :: metadata

type_synonym vector_index = "jsstring \<rightharpoonup> stored_record"

text \<open>
  Modelled from the spec: the write of the external vector index (the \<open>chromadb\<close> client's
  \<open>collection.add\<close>, whose code is not in the repository). The spec gives the index an
  upsert-by-id contract: insert or overwrite by identifier, one tuple after the other. The
  write is taken to succeed.
\<close>

definition upsert_record ::
  "vector_index \<Rightarrow> jsstring \<times> real list \<times> jsstring \<times> metadata \<Rightarrow> vector_index" where
  "upsert_record ix t =
     (case t of (i, e, d, m) \<Rightarrow>
        ix(i \<mapsto> \<lparr>rec_embedding = e, rec_document = d, rec_metadata = m\<rparr>))"

definition collection_add :: "vector_index \<Rightarrow> add_request \<Rightarrow> vector_index" where
  "collection_add ix r =
     foldl upsert_record ix (zip (ids r) (zip (embeddings r) (zip (documents r) (metadatas r))))"

text \<open>\<open>saveToChroma\<close>: the result of the call (\<open>Inl\<close> when it throws) and the index after it.\<close>

definition saveToChroma ::
  "vector_index \<Rightarrow> embedded_chunk list \<Rightarrow> (error + unit) \<times> vector_index" where
  "saveToChroma ix embeddedChunks =
     (case plan_save embeddedChunks of
        Skip \<Rightarrow> (Inr (), ix)
      | Throw err \<Rightarrow> (Inl err, ix)
      | Add r \<Rightarrow> (Inr (), collection_add ix r))"

text \<open>
  The ingestion pipeline shared by the bulk load and \<open>/rechunk\<close>: chunk every document,
  embed the chunks, save them.
\<close>

definition ingest ::
  "embedder \<Rightarrow> jsnum \<Rightarrow> jsnum \<Rightarrow> document list \<Rightarrow> vector_index
     \<Rightarrow> (error + unit) \<times> vector_index" where
  "ingest e sz overlap docs ix =
     saveToChroma ix (embedAllChunks e (chunkAllDocuments docs sz overlap))"

text \<open>The ids of the index whose record belongs to a document (file name and category).\<close>

definition records_of :: "vector_index \<Rightarrow> jsstring \<Rightarrow> jsstring \<Rightarrow> jsstring set" where
  "records_of ix f c =
     {i. case ix i of None \<Rightarrow> False
         | Some r \<Rightarrow> md_filename (rec_metadata r) = f \<and> md_category (rec_metadata r) = c}"

section \<open>Request values, parseInt and the environment\<close>

text \<open>
  The values a JSON body field or an environment variable can hold here: absent
  (\<open>undefined\<close>), \<open>null\<close>, a boolean, an integer (of magnitude below \<open>10^21\<close>, so that it
  prints in plain decimal) or a string.
\<close>

datatype jsvalue = Undefined | Null | Bool bool | Number int | String jsstring

fun truthy :: "jsvalue \<Rightarrow> bool" where
  "truthy Undefined = False"
| "truthy Null = False"
| "truthy (Bool b) = b"
| "truthy (Number n) = (n \<noteq> 0)"
| "truthy (String s) = (s \<noteq> [])"

fun to_string :: "jsvalue \<Rightarrow> jsstring" where
  "to_string Undefined = js ''undefined''"
| "to_string Null = js ''null''"
| "to_string (Bool b) = (if b then js ''true'' else js ''false'')"
| "to_string (Number n) = (if n < 0 then 0x2D # decimal (nat (- n)) else decimal (nat n))"
| "to_string (String s) = s"

text \<open>
  \<open>parseInt(string)\<close> without a radix: leading whitespace is skipped, then an optional sign,
  then an optional \<open>0x\<close>/\<open>0X\<close> (radix 16, else 10), then the longest run of digits of the
  radix; no digit gives \<open>NaN\<close>. (The value is exact here; JavaScript rounds it to a double.)
\<close>

fun strip_sign :: "jsstring \<Rightarrow> bool \<times> jsstring" where
  "strip_sign [] = (False, [])"
| "strip_sign (c # cs) =
     (if c = 0x2D then (True, cs) else if c = 0x2B then (False, cs) else (False, c # cs))"

fun strip_radix :: "jsstring \<Rightarrow> nat \<times> jsstring" where
  "strip_radix (a # b # cs) =
     (if a = 0x30 \<and> (b = 0x78 \<or> b = 0x58) then (16, cs) else (10, a # b # cs))"
| "strip_radix s = (10, s)"

definition digit_value :: "nat \<Rightarrow> jschar \<Rightarrow> nat option" where
  "digit_value r c =
     (let v = (if 0x30 \<le> c \<and> c \<le> 0x39 then Some (unat c - 0x30)
               else if 0x61 \<le> c \<and> c \<le> 0x7A then Some (unat c - 0x61 + 10)
               else if 0x41 \<le> c \<and> c \<le> 0x5A then Some (unat c - 0x41 + 10)
               else None)
      in case v of None \<Rightarrow> None | Some d \<Rightarrow> if d < r then Some d else None)"

fun leading_digits :: "nat \<Rightarrow> jsstring \<Rightarrow> nat list" where
  "leading_digits r [] = []"
| "leading_digits r (c # cs) =
     (case digit_value r c of None \<Rightarrow> [] | Some d \<Rightarrow> d # leading_digits r cs)"

definition parseInt_string :: "jsstring \<Rightarrow> jsnum" where
  "parseInt_string inputString =
     (case strip_sign (dropWhile is_ws inputString) of (negative, s) \<Rightarrow>
        case strip_radix s of (r, z) \<Rightarrow>
          let ds = leading_digits r z;
              n = int (foldl (\<lambda>acc d. acc * r + d) 0 ds)
          in if ds = [] then NaN else Num (if negative then - n else n))"

definition parseInt :: "jsvalue \<Rightarrow> jsnum" where
  "parseInt v = parseInt_string (to_string v)"

text \<open>\<open>a || b\<close> on numbers: \<open>NaN\<close> and \<open>0\<close> are falsy.\<close>

fun num_truthy :: "jsnum \<Rightarrow> bool" where
  "num_truthy NaN = False"
| "num_truthy (Num n) = (n \<noteq> 0)"

definition or_num :: "jsnum \<Rightarrow> jsnum \<Rightarrow> jsnum" where
  "or_num a b = (if num_truthy a then a else b)"

text \<open>The two environment variables the chunk parameters come from.\<close>

record env =
  env_CHUNK_LENGTH :: "jsstring option"
  env_CHUNK_OVERLAP :: "jsstring option"

text \<open>\<open>process.env.X || dflt\<close>: an unset or empty variable gives the default string.\<close>

definition env_or :: "jsstring option \<Rightarrow> jsstring \<Rightarrow> jsstring" where
  "env_or v dflt = (case v of None \<Rightarrow> dflt | Some s \<Rightarrow> if s = [] then dflt else s)"

text \<open>\<open>process.env.X\<close> as a value: \<open>undefined\<close> when unset.\<close>

definition env_value :: "jsstring option \<Rightarrow> jsvalue" where
  "env_value v = (case v of None \<Rightarrow> Undefined | Some s \<Rightarrow> String s)"

text \<open>The module constants \<open>CHUNK_LENGTH\<close> and \<open>CHUNK_OVERLAP\<close>.\<close>

definition CHUNK_LENGTH :: "env \<Rightarrow> jsnum" where
  "CHUNK_LENGTH ev = parseInt_string (env_or (env_CHUNK_LENGTH ev) (js ''500''))"

definition CHUNK_OVERLAP :: "env \<Rightarrow> jsnum" where
  "CHUNK_OVERLAP ev = parseInt_string (env_or (env_CHUNK_OVERLAP ev) (js ''50''))"

section \<open>The HTTP handlers\<close>

text \<open>An awaited call of an external collaborator: it throws (with a message) or returns.\<close>

datatype 'a outcome = Throws jsstring | Returns 'a

record source =
  src_filename :: "jsstring option"
  src_category :: "jsstring option"
  src_chunkIndex :: "nat option"

text \<open>The JSON bodies the handlers send.\<close>

datatype body =
    ErrorBody jsstring
  | ErrorDetailsBody jsstring jsstring
  | MessageBody jsstring
  | AnswerBody jsstring "source list"
  | RechunkBody jsstring nat nat jsnum jsnum

record response =
  status :: nat
  body :: body

subsection \<open>POST /upload\<close>

text \<open>
  The request: the \<open>category\<close> field and the uploaded file's \<open>originalname\<close>.
  \<open>stored_text\<close> stands for the file-system steps up to \<open>readFileContent(finalPath)\<close>:
  one of them throws, or the text of the file is returned.
\<close>

record upload_request =
  up_category :: "jsstring option"
  up_file :: "jsstring option"

definition upload_chunks :: "env \<Rightarrow> jsstring \<Rightarrow> jsstring \<Rightarrow> jsstring \<Rightarrow> chunk list" where
  "upload_chunks ev originalname cat text =
     map (\<lambda>(i, c). \<lparr>filename = originalname, category = cat, content = c, chunkIndex = i\<rparr>)
         (enumerate 0 (chunkText text (CHUNK_LENGTH ev) (Num 0)))"

definition upload_handler ::
  "env \<Rightarrow> embedder \<Rightarrow> jsstring outcome \<Rightarrow> upload_request \<Rightarrow> vector_index
     \<Rightarrow> response \<times> vector_index" where
  "upload_handler ev e stored_text req ix =
     (case (up_category req, up_file req) of
        (Some cat, Some originalname) \<Rightarrow>
          if cat = [] then
            (\<lparr>status = 400, body = ErrorBody (js ''category and file are required'')\<rparr>, ix)
          else
            (case stored_text of
               Throws m \<Rightarrow> (\<lparr>status = 500, body = ErrorBody (js ''Upload failed'')\<rparr>, ix)
             | Returns text \<Rightarrow>
                 if text = [] then
                   (\<lparr>status = 400,
                     body = ErrorBody (js ''Uploaded file has no extractable text.'')\<rparr>, ix)
                 else if chunkText text (CHUNK_LENGTH ev) (Num 0) = [] then
                   (\<lparr>status = 400,
                     body = ErrorBody (js ''No chunks could be created from this file.'')\<rparr>, ix)
                 else
                   (let embedded = embedAllChunks e (upload_chunks ev originalname cat text)
                    in if embedded = [] then
                         (\<lparr>status = 500,
                           body = ErrorBody (js ''Failed to generate embeddings for file.'')\<rparr>,
                          ix)
                       else
                         (case saveToChroma ix embedded of
                            (Inl err, ix') \<Rightarrow>
                              (\<lparr>status = 500, body = ErrorBody (js ''Upload failed'')\<rparr>, ix')
                          | (Inr u, ix') \<Rightarrow>
                              (\<lparr>status = 200,
                                body = MessageBody (js ''File uploaded and processed.'')\<rparr>,
                               ix'))))
      | _ \<Rightarrow> (\<lparr>status = 400, body = ErrorBody (js ''category and file are required'')\<rparr>, ix))"

subsection \<open>POST /rechunk\<close>

record rechunk_body =
  chunkLength :: jsvalue
  chunkOverlap :: jsvalue
  specificFile :: jsvalue
  specificCategory :: jsvalue

text \<open>The local \<open>CHUNK_LENGTH\<close> and \<open>CHUNK_OVERLAP\<close> of the handler.\<close>

definition rechunk_length :: "env \<Rightarrow> rechunk_body \<Rightarrow> jsnum" where
  "rechunk_length ev b =
     or_num (or_num (parseInt (chunkLength b)) (parseInt (env_value (env_CHUNK_LENGTH ev))))
            (Num 500)"

definition rechunk_overlap :: "env \<Rightarrow> rechunk_body \<Rightarrow> jsnum" where
  "rechunk_overlap ev b =
     or_num (or_num (parseInt (chunkOverlap b)) (parseInt (env_value (env_CHUNK_OVERLAP ev))))
            (Num 50)"

text \<open>
  The handler. \<open>loaded\<close> is the outcome of \<open>loadAllDocumentsWithCategory\<close>. \<open>docs\<close> is
  declared with \<open>const\<close>, so each of the two assignments \<open>docs = docs.filter(...)\<close> throws
  a TypeError when it runs, which the handler's \<open>catch\<close> turns into a 500.
\<close>

definition rechunk_failed :: "jsstring \<Rightarrow> response" where
  "rechunk_failed m = \<lparr>status = 500, body = ErrorDetailsBody (js ''Rechunk failed'') m\<rparr>"

definition rechunk_handler ::
  "env \<Rightarrow> embedder \<Rightarrow> document list outcome \<Rightarrow> rechunk_body \<Rightarrow> vector_index
     \<Rightarrow> response \<times> vector_index" where
  "rechunk_handler ev e loaded b ix =
     (case loaded of
        Throws m \<Rightarrow> (rechunk_failed m, ix)
      | Returns docs \<Rightarrow>
          if truthy (specificCategory b) then
            (rechunk_failed (js ''Assignment to constant variable.''), ix)
          else if truthy (specificFile b) then
            (rechunk_failed (js ''Assignment to constant variable.''), ix)
          else if length docs = 0 then
            (\<lparr>status = 404, body = MessageBody (js ''No matching documents found'')\<rparr>, ix)
          else
            (let chunks = chunkAllDocuments docs (rechunk_length ev b) (rechunk_overlap ev b);
                 embedded = embedAllChunks e chunks
             in case saveToChroma ix embedded of
                  (Inl (Error m), ix') \<Rightarrow> (rechunk_failed m, ix')
                | (Inr u, ix') \<Rightarrow>
                    (\<lparr>status = 200,
                      body = RechunkBody (js ''Rechunk completed'') (length docs) (length chunks)
                               (rechunk_length ev b) (rechunk_overlap ev b)\<rparr>,
                     ix')))"

subsection \<open>POST /prompt\<close>

text \<open>
  What \<open>collection.query\<close> returns: \<open>results.documents?.[0]\<close> and
  \<open>results.metadatas?.[0]\<close>, each possibly missing, with entries that may be \<open>null\<close> and
  metadata fields that may be missing.
\<close>

record result_meta =
  rm_filename :: "jsstring option"
  rm_category :: "jsstring option"
  rm_chunkIndex :: "nat option"

record query_result =
  q_documents :: "jsstring option list option"
  q_metadatas :: "result_meta option list option"

text \<open>\<open>results.documents?.[0] || []\<close> and \<open>results.metadatas?.[0] || []\<close>\<close>

definition result_docs :: "query_result \<Rightarrow> jsstring option list" where
  "result_docs results = (case q_documents results of None \<Rightarrow> [] | Some d \<Rightarrow> d)"

definition result_metas :: "query_result \<Rightarrow> result_meta option list" where
  "result_metas results = (case q_metadatas results of None \<Rightarrow> [] | Some ms \<Rightarrow> ms)"

definition nl :: jsstring where
  "nl = [0x0A]"

definition or_unknown :: "jsstring option \<Rightarrow> jsstring" where
  "or_unknown v = (case v of None \<Rightarrow> js ''unknown'' | Some s \<Rightarrow> if s = [] then js ''unknown'' else s)"

text \<open>\<open>metas[idx] || {}\<close>\<close>

definition meta_at :: "result_meta option list \<Rightarrow> nat \<Rightarrow> result_meta" where
  "meta_at metas idx =
     (if idx < length metas
      then (case metas ! idx of
              None \<Rightarrow> \<lparr>rm_filename = None, rm_category = None, rm_chunkIndex = None\<rparr>
            | Some m \<Rightarrow> m)
      else \<lparr>rm_filename = None, rm_category = None, rm_chunkIndex = None\<rparr>)"

text \<open>The block appended to \<open>contextText\<close> for one retrieved document.\<close>

definition context_block :: "result_meta \<Rightarrow> jsstring option \<Rightarrow> jsstring" where
  "context_block meta doc =
     js ''Source: '' @ or_unknown (rm_filename meta) @ nl @
     js ''Category: '' @ or_unknown (rm_category meta) @ nl @
     js ''Chunk: '' @ (case rm_chunkIndex meta of None \<Rightarrow> js ''?'' | Some i \<Rightarrow> decimal i) @ nl @
     nl @
     (case doc of None \<Rightarrow> js ''null'' | Some d \<Rightarrow> d) @ nl @
     js ''------------------------------------------------'' @ nl @
     nl @
     nl"

definition build_context :: "jsstring option list \<Rightarrow> result_meta option list \<Rightarrow> jsstring" where
  "build_context docs metas =
     concat (map (\<lambda>(idx, doc). context_block (meta_at metas idx) doc) (enumerate 0 docs))"

definition no_documents_sentinel :: jsstring where
  "no_documents_sentinel = js ''No relevant documents found.''"

definition context_for :: "jsstring option list \<Rightarrow> result_meta option list \<Rightarrow> jsstring" where
  "context_for docs metas =
     (if trim (build_context docs metas) = [] then no_documents_sentinel
      else build_context docs metas)"

definition not_available :: jsstring where
  "not_available = js ''The answer is not available in the provided documents.''"

text \<open>The text of the one part sent to \<open>ai.models.generateContent\<close>.\<close>

definition prompt_text :: "jsstring \<Rightarrow> jsstring \<Rightarrow> jsstring" where
  "prompt_text question contextText =
     js ''You are a retrieval-augmented assistant.'' @ nl @
     js ''Answer ONLY using the provided context.'' @ nl @
     js ''If the answer is not present, reply exactly:'' @ nl @
     [0x22] @ not_available @ [0x22] @ nl @
     nl @
     js ''Question:'' @ nl @
     question @ nl @
     nl @
     js ''Context:'' @ nl @
     contextText"

text \<open>
  \<open>metas.map(m => ({filename: m.filename, ...}))\<close>: reading a field of a \<open>null\<close> entry
  throws a TypeError.
\<close>

fun sources_of :: "result_meta option list \<Rightarrow> source list outcome" where
  "sources_of [] = Returns []"
| "sources_of (None # ms) = Throws (js ''Cannot read properties of null (reading 'filename')'')"
| "sources_of (Some m # ms) =
     (case sources_of ms of
        Throws t \<Rightarrow> Throws t
      | Returns ss \<Rightarrow>
          Returns (\<lparr>src_filename = rm_filename m, src_category = rm_category m,
                    src_chunkIndex = rm_chunkIndex m\<rparr> # ss))"

definition prompt_failed :: "jsstring \<Rightarrow> response" where
  "prompt_failed m = \<lparr>status = 500, body = ErrorDetailsBody (js ''Prompt failed'') m\<rparr>"

text \<open>
  Steps 3 to 5 of the handler: build the context, call the generator, respond. \<open>generate\<close>
  is the outcome of \<open>generateContent\<close> on the prompt text: it throws, or returns a
  response whose \<open>candidates?.[0]?.content?.parts?.[0]?.text\<close> is \<open>None\<close> when missing.
  The result is the response and the prompt texts sent to the generator.
\<close>

definition generate_answer ::
  "(jsstring \<Rightarrow> jsstring option outcome) \<Rightarrow> jsstring \<Rightarrow> query_result
     \<Rightarrow> response \<times> jsstring list" where
  "generate_answer generate q results =
     (let docs = result_docs results;
          metas = result_metas results;
          prompt = prompt_text q (context_for docs metas)
      in case generate prompt of
           Throws m \<Rightarrow> (prompt_failed m, [prompt])
         | Returns text \<Rightarrow>
             (let answer = (case text of
                              None \<Rightarrow> not_available
                            | Some t \<Rightarrow> if t = [] then not_available else t)
              in case sources_of metas of
                   Throws m \<Rightarrow> (prompt_failed m, [prompt])
                 | Returns srcs \<Rightarrow>
                     (\<lparr>status = 200, body = AnswerBody answer srcs\<rparr>, [prompt])))"

text \<open>
  The handler. \<open>question\<close> is \<open>req.body.question\<close> (\<open>None\<close> when missing) and \<open>query\<close>
  the outcome of \<open>collection.query\<close> on the question's embedding.
\<close>

definition prompt_handler ::
  "embedder \<Rightarrow> (real list \<Rightarrow> query_result outcome) \<Rightarrow> (jsstring \<Rightarrow> jsstring option outcome)
     \<Rightarrow> jsstring option \<Rightarrow> response \<times> jsstring list" where
  "prompt_handler e query generate question =
     (case question of
        None \<Rightarrow> (\<lparr>status = 400, body = ErrorBody (js ''question is required'')\<rparr>, [])
      | Some q \<Rightarrow>
          if q = [] \<or> trim q = [] then
            (\<lparr>status = 400, body = ErrorBody (js ''question is required'')\<rparr>, [])
          else
            (case embedChunk e 0 q of
               None \<Rightarrow> (\<lparr>status = 500, body = ErrorBody (js ''Failed to embed question'')\<rparr>, [])
             | Some queryEmbedding \<Rightarrow>
                 if length queryEmbedding = 0 then
                   (\<lparr>status = 500, body = ErrorBody (js ''Failed to embed question'')\<rparr>, [])
                 else
                   (case query queryEmbedding of
                      Throws m \<Rightarrow> (prompt_failed m, [])
                    | Returns results \<Rightarrow> generate_answer generate q results)))"

section \<open>Sample inputs\<close>

definition sample_doc :: document where
  "sample_doc = \<lparr>filename = js ''a.txt'', category = js ''finance'',
                  content = js ''Rates rose. Fees dropped. Staff left.''\<rparr>"

text \<open>An embedding provider that always returns a one-dimensional vector.\<close>

definition always_embeds :: embedder where
  "always_embeds k text = Tensor [1]"



definition no_env :: env where
  "no_env = \<lparr>env_CHUNK_LENGTH = None, env_CHUNK_OVERLAP = None\<rparr>"

definition empty_body :: rechunk_body where
  "empty_body = \<lparr>chunkLength = Undefined, chunkOverlap = Undefined, specificFile = Undefined,
                  specificCategory = Undefined\<rparr>"

text \<open>A document of twenty-one equal sentences, 504 code units long.\<close>

definition long_text :: jsstring where
  "long_text = concat (replicate 21 (js ''Rates rose again today. ''))"


definition finds_one :: "real list \<Rightarrow> query_result outcome" where
  "finds_one v =
     Returns \<lparr>q_documents = Some [Some (js ''Rates rose.'')],
              q_metadatas = Some [Some \<lparr>rm_filename = Some (js ''a.txt''),
                                          rm_category = Some (js ''finance''),
                                          rm_chunkIndex = Some 0\<rparr>]\<rparr>"

section \<open>Properties of the chunker\<close>

lemma trim_snoc_ws: "is_ws c \<Longrightarrow> trim (x @ [c]) = trim x"
  by (simp add: trim_def)

lemma is_ws_space: "is_ws space"
  by (simp add: is_ws_def space_def)

lemma length_trim_le: "length (trim x) \<le> length x"
proof -
  have "length (trim x) \<le> length (rev (dropWhile is_ws (rev x)))"
    unfolding trim_def by (rule length_dropWhile_le)
  also have "\<dots> = length (dropWhile is_ws (rev x))" by simp
  also have "\<dots> \<le> length (rev x)" by (rule length_dropWhile_le)
  finally show ?thesis by simp
qed

lemma length_slice_last: "0 < n \<Longrightarrow> int (length (slice_last n s)) \<le> n"
  by (simp add: slice_last_def)

lemma soft_bounded_mono: "soft_bounded S ov ss c \<Longrightarrow> set ss \<subseteq> set ss' \<Longrightarrow> soft_bounded S ov ss' c"
  unfolding soft_bounded_def by blast

lemma soft_bounded_seeded:
  assumes "int (length seed) \<le> max 0 ov" "s \<in> set ss"
  shows "soft_bounded S ov ss (trim (seed @ s @ [space]))"
proof (cases "int (length (trim (seed @ s))) \<le> S")
  case True
  then show ?thesis
    using trim_snoc_ws[OF is_ws_space, of "seed @ s"] by (simp add: soft_bounded_def)
next
  case False
  have "length (trim (seed @ s)) \<le> length (seed @ s)" by (rule length_trim_le)
  with False have "S < int (length (seed @ s))" by linarith
  with assms show ?thesis
    using trim_snoc_ws[OF is_ws_space, of "seed @ s"]
    unfolding soft_bounded_def by (metis append_assoc)
qed

lemma chunk_step_inv:
  assumes "chunk_step (Num S) (Num ov) (chunks, cur) s = (chunks', cur')"
    and "\<forall>c \<in> set chunks. soft_bounded S ov ss c"
    and "trim cur = [] \<or> soft_bounded S ov ss (trim cur)"
    and "s \<in> set ss"
  shows "(\<forall>c \<in> set chunks'. soft_bounded S ov ss c) \<and>
         (trim cur' = [] \<or> soft_bounded S ov ss (trim cur'))"
proof (cases "int (length (cur @ s)) > S")
  case False
  then have eq: "chunks' = chunks" "cur' = cur @ s @ [space]"
    using assms(1) by (auto simp: chunk_step_def)
  have "trim cur' = trim (cur @ s)"
    using trim_snoc_ws[OF is_ws_space, of "cur @ s"] by (simp add: eq)
  moreover have "length (trim (cur @ s)) \<le> length (cur @ s)" by (rule length_trim_le)
  ultimately have "length (trim cur') \<le> length (cur @ s)" by simp
  then have "int (length (trim cur')) \<le> S" using False by linarith
  then show ?thesis using assms(2) eq by (simp add: soft_bounded_def)
next
  case True
  define seed where "seed = (if 0 < ov \<and> 0 < length chunks' then trim (slice_last ov cur) else [])"
  have eq: "chunks' = (if trim cur = [] then chunks else chunks @ [trim cur])"
    "cur' = seed @ s @ [space]"
    using assms(1) True by (auto simp: chunk_step_def Let_def seed_def)
  have "length (trim (slice_last ov cur)) \<le> length (slice_last ov cur)" by (rule length_trim_le)
  then have "int (length seed) \<le> max 0 ov"
    using length_slice_last[of ov cur] by (auto simp: seed_def)
  then have "soft_bounded S ov ss (trim cur')"
    unfolding eq by (rule soft_bounded_seeded) (rule assms(4))
  moreover have "\<forall>c \<in> set chunks'. soft_bounded S ov ss c"
    using assms(2,3) by (auto simp: eq)
  ultimately show ?thesis by simp
qed

lemma chunk_fold_inv:
  assumes "foldl (chunk_step (Num S) (Num ov)) (chunks, cur) xs = (chunks', cur')"
    and "\<forall>c \<in> set chunks. soft_bounded S ov ss c"
    and "trim cur = [] \<or> soft_bounded S ov ss (trim cur)"
    and "set xs \<subseteq> set ss"
  shows "(\<forall>c \<in> set chunks'. soft_bounded S ov ss c) \<and>
         (trim cur' = [] \<or> soft_bounded S ov ss (trim cur'))"
  using assms
proof (induction xs arbitrary: chunks cur)
  case Nil
  then show ?case by simp
next
  case (Cons x xs)
  obtain c1 k1 where st: "chunk_step (Num S) (Num ov) (chunks, cur) x = (c1, k1)"
    by (cases "chunk_step (Num S) (Num ov) (chunks, cur) x")
  have x: "x \<in> set ss" using Cons.prems(4) by simp
  from chunk_step_inv[OF st Cons.prems(2) Cons.prems(3) x]
  have i1: "\<forall>c \<in> set c1. soft_bounded S ov ss c" "trim k1 = [] \<or> soft_bounded S ov ss (trim k1)"
    by simp_all
  have "foldl (chunk_step (Num S) (Num ov)) (c1, k1) xs = (chunks', cur')"
    using Cons.prems(1) st by simp
  from Cons.IH[OF this i1] Cons.prems(4) show ?case by simp
qed

text \<open>
  C2 (as amended). For every text and all integers \<open>S\<close> and \<open>ov\<close>, every chunk returned by
  \<open>chunkText\<close> has at most \<open>S\<close> code units, or it is the trimmed concatenation of a seed of
  at most \<open>max 0 ov\<close> code units carried over from the flushed buffer and one whole sentence
  of the whitespace-normalised text, and that concatenation is longer than \<open>S\<close>. With
  overlap \<open>0\<close> the seed is empty: the only chunks above \<open>S\<close> are single sentences longer
  than \<open>S\<close>, emitted whole (trimmed, never split).
\<close>

theorem chunkText_soft_bound:
  assumes "c \<in> set (chunkText text (Num S) (Num ov))"
  shows "int (length c) \<le> S \<or>
     (\<exists>s \<in> set (sentences_of text). \<exists>seed. int (length seed) \<le> max 0 ov \<and>
        c = trim (seed @ s) \<and> S < int (length (seed @ s)))"
proof -
  obtain chunks cur where lp: "chunk_loop (Num S) (Num ov) (sentences_of text) = (chunks, cur)"
    by (cases "chunk_loop (Num S) (Num ov) (sentences_of text)")
  have "(\<forall>c \<in> set chunks. soft_bounded S ov (sentences_of text) c) \<and>
        (trim cur = [] \<or> soft_bounded S ov (sentences_of text) (trim cur))"
    by (rule chunk_fold_inv[of S ov "[]" "[]" "sentences_of text"])
       (use lp in \<open>simp_all add: chunk_loop_def trim_def\<close>)
  moreover have "c \<in> set chunks \<or> (trim cur \<noteq> [] \<and> c = trim cur)"
    using assms lp by (auto simp: chunkText_def split: if_splits)
  ultimately have "soft_bounded S ov (sentences_of text) c" by auto
  then show ?thesis by (simp add: soft_bounded_def)
qed


theorem chunkText_soft_bound_witness:
  "int (length (js ''you.Goodbye me.'')) \<le> 12 \<or>
   (\<exists>s \<in> set (sentences_of (js ''Hello you. Goodbye me.'')). \<exists>seed.
      int (length seed) \<le> max 0 6 \<and> js ''you.Goodbye me.'' = trim (seed @ s) \<and>
      12 < int (length (seed @ s)))"
proof -
  have "chunkText (js ''Hello you. Goodbye me.'') (Num 12) (Num 6)
        = [js ''Hello you.'', js ''you.Goodbye me.'']"
    by code_simp
  then have "js ''you.Goodbye me.'' \<in> set (chunkText (js ''Hello you. Goodbye me.'') (Num 12) (Num 6))"
    by simp
  from chunkText_soft_bound[OF this] show ?thesis .
qed

text \<open>
  C2 as stated fails with a positive overlap: with \<open>maxSize = 12\<close> and \<open>overlap = 6\<close> the
  second chunk has 15 code units, although both sentences have at most 12 and the chunk is
  none of them.
\<close>

theorem chunkText_bound_counterexample:
  "chunkText (js ''Hello you. Goodbye me.'') (Num 12) (Num 6)
     = [js ''Hello you.'', js ''you.Goodbye me.''] \<and>
   length (js ''you.Goodbye me.'') = 15 \<and>
   sentences_of (js ''Hello you. Goodbye me.'') = [js ''Hello you.'', js ''Goodbye me.''] \<and>
   length (js ''Hello you.'') = 10 \<and> length (js ''Goodbye me.'') = 11"
  by code_simp

section \<open>Properties of the embedder\<close>










section \<open>Idempotent ingestion\<close>

lemma upsert_record_map_add:
  "upsert_record ix t =
   ix ++ map_of [(fst t, \<lparr>rec_embedding = fst (snd t), rec_document = fst (snd (snd t)),
                           rec_metadata = snd (snd (snd t))\<rparr>)]"
  by (cases t) (simp add: upsert_record_def)

lemma foldl_upsert_record:
  "foldl upsert_record ix ts =
   ix ++ map_of (rev (map (\<lambda>t. (fst t, \<lparr>rec_embedding = fst (snd t),
                                  rec_document = fst (snd (snd t)),
                                  rec_metadata = snd (snd (snd t))\<rparr>)) ts))"
  (is "_ = ix ++ map_of (rev (map ?E ts))")
proof (induction ts arbitrary: ix)
  case Nil
  then show ?case by simp
next
  case (Cons t ts)
  have "foldl upsert_record ix (t # ts) = foldl upsert_record (upsert_record ix t) ts"
    by simp
  also have "\<dots> = upsert_record ix t ++ map_of (rev (map ?E ts))"
    by (rule Cons.IH)
  also have "upsert_record ix t = ix ++ map_of [?E t]"
    by (rule upsert_record_map_add)
  also have "(ix ++ map_of [?E t]) ++ map_of (rev (map ?E ts)) = ix ++ map_of (rev (map ?E (t # ts)))"
    by (simp only: list.map rev.simps map_of_append map_add_assoc)
  finally show ?case .
qed

lemma map_add_twice: "(m ++ n) ++ n = m ++ n"
  by (simp add: fun_eq_iff map_add_def split: option.splits)

lemma collection_add_idem: "collection_add (collection_add ix r) r = collection_add ix r"
  by (simp only: collection_add_def foldl_upsert_record map_add_twice)

lemma saveToChroma_idem:
  "snd (saveToChroma (snd (saveToChroma ix es)) es) = snd (saveToChroma ix es)"
  by (cases "plan_save es") (simp_all add: saveToChroma_def collection_add_idem)

lemma sample_doc_chunks:
  "chunkAllDocuments [sample_doc] (Num 20) (Num 0) =
     [\<lparr>filename = js ''a.txt'', category = js ''finance'', content = js ''Rates rose.'',
       chunkIndex = 0\<rparr>,
      \<lparr>filename = js ''a.txt'', category = js ''finance'', content = js ''Fees dropped.'',
       chunkIndex = 1\<rparr>,
      \<lparr>filename = js ''a.txt'', category = js ''finance'', content = js ''Staff left.'',
       chunkIndex = 2\<rparr>]"
  by code_simp

lemma rechunk_handler_index:
  "snd (rechunk_handler ev e loaded b ix) =
     (case loaded of
        Throws m \<Rightarrow> ix
      | Returns docs \<Rightarrow>
          if truthy (specificCategory b) \<or> truthy (specificFile b) \<or> docs = [] then ix
          else snd (ingest e (rechunk_length ev b) (rechunk_overlap ev b) docs ix))"
  by (simp add: rechunk_handler_def ingest_def Let_def
      split: outcome.splits prod.splits sum.splits error.splits)

lemma upload_handler_index:
  "(\<forall>ix. snd (upload_handler ev e stored_text req ix) = ix) \<or>
   (\<exists>es. \<forall>ix. snd (upload_handler ev e stored_text req ix) = snd (saveToChroma ix es))"
proof (cases "up_category req")
  case None
  then show ?thesis by (simp add: upload_handler_def)
next
  case cat: (Some cat)
  show ?thesis
  proof (cases "up_file req")
    case None
    with cat show ?thesis by (simp add: upload_handler_def)
  next
    case upl: (Some originalname)
    show ?thesis
    proof (cases stored_text)
      case (Throws m)
      with cat upl show ?thesis by (simp add: upload_handler_def)
    next
      case (Returns extracted)
      let ?es = "embedAllChunks e (upload_chunks ev originalname cat extracted)"
      show ?thesis
      proof (cases "cat = [] \<or> extracted = [] \<or> chunkText extracted (CHUNK_LENGTH ev) (Num 0) = [] \<or> ?es = []")
        case True
        with cat upl Returns have "\<forall>ix. snd (upload_handler ev e stored_text req ix) = ix"
          by (auto simp: upload_handler_def Let_def)
        then show ?thesis ..
      next
        case False
        with cat upl Returns
        have "\<forall>ix. snd (upload_handler ev e stored_text req ix) = snd (saveToChroma ix ?es)"
          by (auto simp: upload_handler_def Let_def split: prod.splits sum.splits)
        then show ?thesis by blast
      qed
    qed
  qed
qed

text \<open>
  C1. Running the ingestion pipeline (chunk, embed, identify, store) a second time on the
  same documents, with the same chunk parameters and the same embedding results, leaves
  the vector index in the state the first run left it in; in particular the number of
  records of any document (file name and category) is unchanged. The same holds of the
  two handlers that run the pipeline, \<open>/rechunk\<close> and \<open>/upload\<close>, called twice with the same
  request. The index write is the upsert by identifier of the spec.
\<close>

theorem ingest_idempotent:
  "snd (ingest e sz overlap docs (snd (ingest e sz overlap docs ix)))
     = snd (ingest e sz overlap docs ix) \<and>
   card (records_of (snd (ingest e sz overlap docs (snd (ingest e sz overlap docs ix)))) f c)
     = card (records_of (snd (ingest e sz overlap docs ix)) f c) \<and>
   snd (rechunk_handler ev e loaded b (snd (rechunk_handler ev e loaded b ix)))
     = snd (rechunk_handler ev e loaded b ix) \<and>
   snd (upload_handler ev e stored_text req (snd (upload_handler ev e stored_text req ix)))
     = snd (upload_handler ev e stored_text req ix)"
proof -
  have i: "snd (ingest e sz overlap docs (snd (ingest e sz overlap docs ix)))
     = snd (ingest e sz overlap docs ix)" for sz overlap docs
    by (simp add: ingest_def saveToChroma_idem)
  have r: "snd (rechunk_handler ev e loaded b (snd (rechunk_handler ev e loaded b ix)))
     = snd (rechunk_handler ev e loaded b ix)"
    by (cases loaded) (simp_all add: rechunk_handler_index i)
  have u: "snd (upload_handler ev e stored_text req (snd (upload_handler ev e stored_text req ix)))
     = snd (upload_handler ev e stored_text req ix)"
    using upload_handler_index[of ev e stored_text req]
    by (auto simp: saveToChroma_idem)
  from i[of sz overlap docs] r u show ?thesis by simp
qed

theorem ingest_idempotent_witness:
  "snd (ingest always_embeds (Num 20) (Num 0) [sample_doc]
          (snd (ingest always_embeds (Num 20) (Num 0) [sample_doc] Map.empty)))
     = snd (ingest always_embeds (Num 20) (Num 0) [sample_doc] Map.empty) \<and>
   fst (ingest always_embeds (Num 20) (Num 0) [sample_doc] Map.empty) = Inr ()"
proof -
  have "embedAllChunks always_embeds (chunkAllDocuments [sample_doc] (Num 20) (Num 0)) =
          map (\<lambda>c. with_embedding c [1]) (chunkAllDocuments [sample_doc] (Num 20) (Num 0))"
    unfolding sample_doc_chunks by code_simp
  then have "fst (ingest always_embeds (Num 20) (Num 0) [sample_doc] Map.empty) = Inr ()"
    by (simp add: ingest_def saveToChroma_def plan_save_def save_step_def empty_request_def
        sample_doc_chunks with_embedding_def)
  with ingest_idempotent[of always_embeds "Num 20" "Num 0" "[sample_doc]" Map.empty]
  show ?thesis by simp
qed

section \<open>Chunk identity\<close>
















section \<open>The write step\<close>







section \<open>POST /prompt\<close>

lemma trim_Nil: "trim [] = []"
  by (simp add: trim_def)



lemma prompt_handler_retrieved:
  assumes "trim q \<noteq> []" "embedChunk e 0 q = Some v" "v \<noteq> []" "query v = Returns results"
  shows "prompt_handler e query generate (Some q) = generate_answer generate q results"
proof -
  have "q \<noteq> []" using assms(1) by (auto simp: trim_Nil)
  with assms show ?thesis
    by (simp add: prompt_handler_def)
qed



text \<open>
  C5 (as amended). In \<open>/prompt\<close>, when retrieval succeeded (non-blank question, embedding,
  index query, no \<open>null\<close> metadata entry) and the generator returns without text, the
  response is a 200 whose answer is the sentence
  \<open>The answer is not available in the provided documents.\<close>; when the generator call
  throws, the response is a 500 \<open>Prompt failed\<close> carrying the error's message.
\<close>

theorem prompt_generation_fallback:
  assumes "trim q \<noteq> []" and "embedChunk e 0 q = Some v" and "v \<noteq> []"
    and "query v = Returns results" and "sources_of (result_metas results) = Returns srcs"
  shows
    "(generate (prompt_text q (context_for (result_docs results) (result_metas results)))
        = Returns None \<or>
      generate (prompt_text q (context_for (result_docs results) (result_metas results)))
        = Returns (Some [])
      \<longrightarrow> fst (prompt_handler e query generate (Some q))
            = \<lparr>status = 200, body = AnswerBody not_available srcs\<rparr>) \<and>
     (\<forall>m. generate (prompt_text q (context_for (result_docs results) (result_metas results)))
        = Throws m
      \<longrightarrow> fst (prompt_handler e query generate (Some q))
            = \<lparr>status = 500, body = ErrorDetailsBody (js ''Prompt failed'') m\<rparr>)"
  unfolding prompt_handler_retrieved[where query = query and v = v, OF assms(1-4)]
  by (auto simp: generate_answer_def Let_def assms(5) prompt_failed_def)

theorem prompt_generation_fallback_witness:
  "fst (prompt_handler always_embeds finds_one (\<lambda>p. Returns None) (Some (js ''What rose?'')))
     = \<lparr>status = 200,
        body = AnswerBody (js ''The answer is not available in the provided documents.'')
                 [\<lparr>src_filename = Some (js ''a.txt''), src_category = Some (js ''finance''),
                   src_chunkIndex = Some 0\<rparr>]\<rparr>"
proof -
  have t: "trim (js ''What rose?'') \<noteq> []"
    by code_simp
  have e: "embedChunk always_embeds 0 (js ''What rose?'') = Some [1]"
    by (simp add: embedChunk_def always_embeds_def)
  have q: "finds_one [1] =
     Returns \<lparr>q_documents = Some [Some (js ''Rates rose.'')],
              q_metadatas = Some [Some \<lparr>rm_filename = Some (js ''a.txt''),
                                          rm_category = Some (js ''finance''),
                                          rm_chunkIndex = Some 0\<rparr>]\<rparr>"
    by (simp add: finds_one_def)
  have s: "sources_of (result_metas
             \<lparr>q_documents = Some [Some (js ''Rates rose.'')],
              q_metadatas = Some [Some \<lparr>rm_filename = Some (js ''a.txt''),
                                          rm_category = Some (js ''finance''),
                                          rm_chunkIndex = Some 0\<rparr>]\<rparr>)
           = Returns [\<lparr>src_filename = Some (js ''a.txt''), src_category = Some (js ''finance''),
                       src_chunkIndex = Some 0\<rparr>]"
    by (simp add: result_metas_def)
  from prompt_generation_fallback[where query = finds_one and v = "[1]"
      and generate = "\<lambda>p. Returns None", OF t e _ q s]
  show ?thesis by (simp add: not_available_def)
qed

text \<open>
  C5 as stated fails when the generator call throws: retrieval succeeded, and the response
  is a 500 with the raw message, not the fallback sentence.
\<close>

theorem prompt_generation_throws_counterexample:
  "fst (prompt_handler always_embeds finds_one (\<lambda>p. Throws (js ''fetch failed''))
          (Some (js ''What rose?'')))
     = \<lparr>status = 500, body = ErrorDetailsBody (js ''Prompt failed'') (js ''fetch failed'')\<rparr>"
proof -
  have t: "trim (js ''What rose?'') \<noteq> []"
    by code_simp
  have e: "embedChunk always_embeds 0 (js ''What rose?'') = Some [1]"
    by (simp add: embedChunk_def always_embeds_def)
  show ?thesis
    unfolding prompt_handler_retrieved[where query = finds_one and v = "[1]",
        OF t e _ finds_one_def, simplified]
    by (simp add: generate_answer_def prompt_failed_def)
qed

section \<open>POST /rechunk\<close>

text \<open>
  C9 does not hold of the code: with a truthy \<open>specificCategory\<close> or \<open>specificFile\<close> the
  handler assigns to the constant \<open>docs\<close>, which throws, so the response is a 500 whatever
  the documents are, also when the filter matches none of them.
\<close>

theorem rechunk_filter_throws:
  assumes "truthy (specificCategory b) \<or> truthy (specificFile b)"
  shows "rechunk_handler ev e (Returns docs) b ix
           = (\<lparr>status = 500,
               body = ErrorDetailsBody (js ''Rechunk failed'')
                        (js ''Assignment to constant variable.'')\<rparr>, ix)"
  using assms by (auto simp: rechunk_handler_def rechunk_failed_def)

theorem rechunk_filter_throws_witness:
  "rechunk_handler no_env always_embeds (Returns [sample_doc])
     (empty_body\<lparr>specificCategory := String (js ''legal'')\<rparr>) Map.empty
   = (\<lparr>status = 500,
       body = ErrorDetailsBody (js ''Rechunk failed'')
                (js ''Assignment to constant variable.'')\<rparr>, Map.empty)"
proof -
  have "truthy (specificCategory (empty_body\<lparr>specificCategory := String (js ''legal'')\<rparr>))"
    by (simp add: js_def)
  then show ?thesis
    using rechunk_filter_throws[of "empty_body\<lparr>specificCategory := String (js ''legal'')\<rparr>"
        no_env always_embeds "[sample_doc]" Map.empty]
    by blast
qed




section \<open>The two ingestion modes\<close>

lemma contents_of_enumerate:
  "map (length \<circ> content)
     (map (\<lambda>(i, c). \<lparr>filename = f, category = g, content = c, chunkIndex = i\<rparr>) (enumerate n xs))
   = map length xs"
  by (induction xs arbitrary: n) simp_all

lemma long_text_sentences:
  "sentences_of long_text = replicate 21 (js ''Rates rose again today.'') @ [[]]"
  by code_simp

lemma long_text_no_overlap: "map length (chunkText long_text (Num 500) (Num 0)) = [479, 23]"
  unfolding chunkText_def long_text_sentences by code_simp

lemma long_text_overlap: "map length (chunkText long_text (Num 500) (Num 50)) = [479, 72]"
  unfolding chunkText_def long_text_sentences by code_simp

lemma default_parameters:
  "CHUNK_LENGTH no_env = Num 500" "rechunk_length no_env empty_body = Num 500"
  "rechunk_overlap no_env empty_body = Num 50"
  by code_simp+

text \<open>
  C6 does not hold of the code: \<open>/upload\<close> calls \<open>chunkText(text, CHUNK_LENGTH)\<close>, so its
  overlap is the default \<open>0\<close> of the parameter, while \<open>/rechunk\<close> passes the configured
  overlap. With no environment variable set and no body field, the same 504 code units
  are cut into chunks of 479 and 23 code units by \<open>/upload\<close> and of 479 and 72 by
  \<open>/rechunk\<close>.
\<close>

theorem upload_rechunk_chunks_differ:
  "map (length \<circ> content) (upload_chunks no_env (js ''a.txt'') (js ''finance'') long_text)
     = [479, 23] \<and>
   map (length \<circ> content)
     (chunkAllDocuments
        [\<lparr>filename = js ''a.txt'', category = js ''finance'', content = long_text\<rparr>]
        (rechunk_length no_env empty_body) (rechunk_overlap no_env empty_body))
     = [479, 72]"
  by (simp add: upload_chunks_def chunkAllDocuments_def chunks_of_document_def
      default_parameters contents_of_enumerate long_text_no_overlap long_text_overlap
      del: map_map)

theorem upload_rechunk_chunks_differ_witness:
  "map (length \<circ> content) (upload_chunks no_env (js ''a.txt'') (js ''finance'') long_text)
   \<noteq> map (length \<circ> content)
     (chunkAllDocuments
        [\<lparr>filename = js ''a.txt'', category = js ''finance'', content = long_text\<rparr>]
        (rechunk_length no_env empty_body) (rechunk_overlap no_env empty_body))"
  using upload_rechunk_chunks_differ by simp

end
